theory Spec2Isabelle
  imports Main
begin

section \<open>Go library functions used by the schema facade\<close>

text \<open>
  Go strings are byte sequences; a \<^typ>\<open>string\<close> is a list of bytes as well.
  \<open>strings.Contains(s, sub)\<close> holds when \<open>sub\<close> occurs in \<open>s\<close>;
  \<open>strings.LastIndex(s, sub)\<close> is the index of the last occurrence, or \<open>-1\<close>;
  \<open>slices.Contains(xs, x)\<close> is membership.
\<close>

primrec strings_Contains :: "string \<Rightarrow> string \<Rightarrow> bool" where
  "strings_Contains [] sub = (sub = [])"
| "strings_Contains (c # cs) sub =
     (take (length sub) (c # cs) = sub \<or> strings_Contains cs sub)"

primrec strings_LastIndex :: "string \<Rightarrow> string \<Rightarrow> int" where
  "strings_LastIndex [] sub = (if sub = [] then 0 else - 1)"
| "strings_LastIndex (c # cs) sub =
     (let i = strings_LastIndex cs sub
      in if 0 \<le> i then i + 1
         else if take (length sub) (c # cs) = sub then 0 else - 1)"

primrec slices_Contains :: "string list \<Rightarrow> string \<Rightarrow> bool" where
  "slices_Contains [] v = False"
| "slices_Contains (x # xs) v = (if x = v then True else slices_Contains xs v)"

section \<open>Errors\<close>

text \<open>
  The error kinds of the framework's \<open>errors\<close> package that \<open>schema.go\<close> builds with
  \<open>.Args(...)\<close>: each carries the arguments it was given. \<open>QueryError\<close> stands for an
  error of the query engine.
\<close>

datatype error =
    QueryError string
  | SchemaDriverNotSupported string
  | SchemaFailedToCreateTable string error
  | SchemaFailedToDropTable string error
  | SchemaFailedToDropColumns string error
  | SchemaFailedToRenameTable string error
  | SchemaFailedToChangeTable string error
  | SchemaFailedToGetTables string error

section \<open>Collaborators\<close>

subsection \<open>Drivers and configuration\<close>

type_synonym Driver = string

text \<open>Modelled from the spec: the driver constants of \<open>contracts/database\<close>, which is not
  part of the source file; the spec names the four supported kinds.\<close>

definition DriverPostgres :: Driver where "DriverPostgres = ''postgres''"
definition DriverMysql :: Driver where "DriverMysql = ''mysql''"
definition DriverSqlserver :: Driver where "DriverSqlserver = ''sqlserver''"
definition DriverSqlite :: Driver where "DriverSqlite = ''sqlite''"

type_synonym Config = "string \<rightharpoonup> string"

text \<open>Modelled from the spec: the configuration store's \<open>GetString(key, default?)\<close>, which
  is not part of the source file. A key that is not set gives the default, or the empty
  string when no default is passed.\<close>

definition GetString :: "Config \<Rightarrow> string \<Rightarrow> string option \<Rightarrow> string" where
  "GetString cfg path dflt =
     (case cfg path of
        Some v \<Rightarrow> v
      | None \<Rightarrow> (case dflt of Some d \<Rightarrow> d | None \<Rightarrow> []))"

text \<open>\<open>fmt.Sprintf("database.connections.%s.<field>", name)\<close>\<close>

definition connection_key :: "string \<Rightarrow> string \<Rightarrow> string" where
  "connection_key name field = ''database.connections.'' @ name @ ''.'' @ field"

subsection \<open>Query engine\<close>

text \<open>A query handle knows its connection and whether it runs inside a transaction.\<close>

datatype Query = Query (Query_Connection: string) (InTransaction: bool)

datatype Orm = Orm (Orm_Name: string) (Orm_Query: Query)

text \<open>Modelled from the spec: \<open>Orm.Connection(name)\<close>, which is not part of the source
  file, rebinds to another configured connection; the handle of the new connection is
  outside any transaction.\<close>

definition Orm_Connection :: "Orm \<Rightarrow> string \<Rightarrow> Orm" where
  "Orm_Connection o' name = Orm name (Query name False)"

subsection \<open>Logging sink\<close>

type_synonym Log = string

datatype LogArg = ArgString string | ArgError error

text \<open>The first argument of \<open>Errorf\<close> is a literal format, or the text of an error
  (\<open>err.Error()\<close>).\<close>

datatype LogFormat = Format string | ErrorText error

datatype LogEntry = LogEntry Log LogFormat "LogArg list"

subsection \<open>Dialect plugins\<close>

text \<open>The values built by the constructors of the \<open>grammars\<close> and \<open>processors\<close>
  packages and by the per-driver schema constructors; each remembers its arguments.\<close>

datatype Grammar =
    grammars_NewPostgres string
  | grammars_NewMysql string
  | grammars_NewSqlserver string
  | grammars_NewSqlite Log string

datatype Processor =
    processors_NewPostgres
  | processors_NewMysql
  | processors_NewSqlserver
  | processors_NewSqlite

datatype DriverSchema =
    NewPostgresSchema Grammar Orm string string
  | NewMysqlSchema Grammar Orm string
  | NewSqlserverSchema Grammar Orm string
  | NewSqliteSchema Grammar Orm string

datatype CommonSchema = NewCommonSchema Grammar Orm

subsection \<open>The normalized metadata model\<close>

datatype Table = MkTable (Table_Name: string) (Table_Schema: string)
datatype Column = Column (Column_Name: string) (Column_Type: string)
datatype Index = Index (Index_Name: string) (Index_Columns: "string list")
datatype Type = Type (Type_Name: string) (Type_Schema: string)
datatype View = View (View_Name: string) (View_Schema: string)
datatype DBForeignKey = DBForeignKey string string
datatype ForeignKey = ForeignKey string "string list"

type_synonym Migration = string

section \<open>The Schema facade\<close>

record Schema =
  CommonSchema :: CommonSchema
  DriverSchema :: DriverSchema
  config :: Config
  grammar :: Grammar
  log :: Log
  migrations :: "Migration list"
  orm :: Orm
  prefix :: string
  processor :: Processor
  schema :: string

text \<open>A panic is the \<open>Inl\<close> of the result.\<close>

definition NewSchema :: "Config \<Rightarrow> Log \<Rightarrow> Orm \<Rightarrow> Migration list \<Rightarrow> error + Schema" where
  "NewSchema cfg lg om migs =
     (let driver = GetString cfg (connection_key (Orm_Name om) ''driver'') None;
          pfx = GetString cfg (connection_key (Orm_Name om) ''prefix'') None;
          mk = (\<lambda>driverSchema gr pr sch.
                  Inr \<lparr> CommonSchema = NewCommonSchema gr om,
                        DriverSchema = driverSchema,
                        config = cfg, grammar = gr, log = lg, migrations = migs,
                        orm = om, prefix = pfx, processor = pr, schema = sch \<rparr>)
      in if driver = DriverPostgres then
           (let sch = GetString cfg (connection_key (Orm_Name om) ''schema'') (Some ''public'');
                postgresGrammar = grammars_NewPostgres pfx
            in mk (NewPostgresSchema postgresGrammar om sch pfx) postgresGrammar
                  processors_NewPostgres sch)
         else if driver = DriverMysql then
           (let sch = GetString cfg (connection_key (Orm_Name om) ''database'') None;
                mysqlGrammar = grammars_NewMysql pfx
            in mk (NewMysqlSchema mysqlGrammar om pfx) mysqlGrammar processors_NewMysql sch)
         else if driver = DriverSqlserver then
           (let sqlserverGrammar = grammars_NewSqlserver pfx
            in mk (NewSqlserverSchema sqlserverGrammar om pfx) sqlserverGrammar
                  processors_NewSqlserver [])
         else if driver = DriverSqlite then
           (let sqliteGrammar = grammars_NewSqlite lg pfx
            in mk (NewSqliteSchema sqliteGrammar om pfx) sqliteGrammar processors_NewSqlite [])
         else Inl (SchemaDriverNotSupported driver))"

definition Connection :: "Schema \<Rightarrow> string \<Rightarrow> error + Schema" where
  "Connection r name =
     NewSchema (config r) (log r) (Orm_Connection (orm r) name) (migrations r)"

definition GetConnection :: "Schema \<Rightarrow> string" where
  "GetConnection r = Orm_Name (orm r)"

definition Migrations :: "Schema \<Rightarrow> Migration list" where
  "Migrations r = migrations r"

definition Register :: "Schema \<Rightarrow> Migration list \<Rightarrow> Schema" where
  "Register r migs = r\<lparr>migrations := migs\<rparr>"

text \<open>\<open>SetConnection\<close> assigns to the receiver; the updated receiver is returned.\<close>

definition SetConnection :: "Schema \<Rightarrow> string \<Rightarrow> Schema" where
  "SetConnection r name = r\<lparr>orm := Orm_Connection (orm r) name\<rparr>"

section \<open>The world outside the facade\<close>

text \<open>
  What the facade acts on: the database contents (of any type \<open>'db\<close>), the transactions
  the query engine has opened and ended, and what has been written to the logging sink.
\<close>

datatype TxEvent = TxBegin | TxCommit | TxRollback

record 'db World =
  store :: 'db
  txlog :: "TxEvent list"
  errlog :: "LogEntry list"

text \<open>Modelled from the spec: the logging sink's \<open>Errorf(format, args...)\<close>, which is not
  part of the source file, records one entry.\<close>

definition Errorf :: "Log \<Rightarrow> LogFormat \<Rightarrow> LogArg list \<Rightarrow> 'db World \<Rightarrow> 'db World" where
  "Errorf lg fmt args w = w\<lparr>errlog := errlog w @ [LogEntry lg fmt args]\<rparr>"

subsection \<open>Blueprint\<close>

text \<open>Modelled from the spec: the Blueprint of \<open>blueprint.go\<close>, which is not part of the
  source file: a per-table accumulator whose mutators append to an ordered command
  list.\<close>

datatype Command =
    CommandCreate
  | CommandDrop
  | CommandDropIfExists
  | CommandRename string
  | CommandDropColumn "string list"
  | CommandAdd string

record Blueprint =
  Blueprint_schema :: Schema
  Blueprint_prefix :: string
  Blueprint_table :: string
  Blueprint_commands :: "Command list"

definition NewBlueprint :: "Schema \<Rightarrow> string \<Rightarrow> string \<Rightarrow> Blueprint" where
  "NewBlueprint r pfx table =
     \<lparr> Blueprint_schema = r, Blueprint_prefix = pfx, Blueprint_table = table,
       Blueprint_commands = [] \<rparr>"

definition addCommand :: "Command \<Rightarrow> Blueprint \<Rightarrow> Blueprint" where
  "addCommand c b = b\<lparr>Blueprint_commands := Blueprint_commands b @ [c]\<rparr>"

definition Blueprint_Create :: "Blueprint \<Rightarrow> Blueprint" where
  "Blueprint_Create = addCommand CommandCreate"

definition Blueprint_Drop :: "Blueprint \<Rightarrow> Blueprint" where
  "Blueprint_Drop = addCommand CommandDrop"

definition Blueprint_DropIfExists :: "Blueprint \<Rightarrow> Blueprint" where
  "Blueprint_DropIfExists = addCommand CommandDropIfExists"

definition Blueprint_Rename :: "string \<Rightarrow> Blueprint \<Rightarrow> Blueprint" where
  "Blueprint_Rename to = addCommand (CommandRename to)"

definition Blueprint_DropColumn :: "string list \<Rightarrow> Blueprint \<Rightarrow> Blueprint" where
  "Blueprint_DropColumn columns = addCommand (CommandDropColumn columns)"

subsection \<open>What the dialect plugins and the query engine compute\<close>

text \<open>
  The bodies of the grammars, processors and per-driver schemas and the execution of SQL
  are outside the source file; every function of the facade takes them as a parameter.
  Reading and executing are functions of the database contents.
\<close>

record 'db Env =
  CompileForeignKeys :: "Grammar \<Rightarrow> string \<Rightarrow> string \<Rightarrow> string"
  ProcessForeignKeys :: "Processor \<Rightarrow> DBForeignKey list \<Rightarrow> ForeignKey list"
  ToSql :: "Blueprint \<Rightarrow> Grammar \<Rightarrow> string list"
  Exec :: "Query \<Rightarrow> string \<Rightarrow> 'db \<Rightarrow> error + 'db"
  Raw_Scan :: "Query \<Rightarrow> string \<Rightarrow> 'db \<Rightarrow> error + DBForeignKey list"
  GetColumns :: "DriverSchema \<Rightarrow> string \<Rightarrow> 'db \<Rightarrow> error + Column list"
  GetIndexes :: "DriverSchema \<Rightarrow> string \<Rightarrow> 'db \<Rightarrow> error + Index list"
  GetTables :: "DriverSchema \<Rightarrow> 'db \<Rightarrow> error + Table list"
  GetTypes :: "DriverSchema \<Rightarrow> 'db \<Rightarrow> error + Type list"
  GetViews :: "DriverSchema \<Rightarrow> 'db \<Rightarrow> error + View list"

text \<open>Modelled from the spec: \<open>Blueprint.Build(query, grammar)\<close>, which is not part of
  the source file, executes the compiled statements in sequence against the given handle
  and stops at the first failing statement, returning its error.\<close>

primrec exec_all :: "'db Env \<Rightarrow> Query \<Rightarrow> string list \<Rightarrow> 'db \<Rightarrow> error option \<times> 'db" where
  "exec_all env q [] d = (None, d)"
| "exec_all env q (sql # sqls) d =
     (case Exec env q sql d of
        Inl err \<Rightarrow> (Some err, d)
      | Inr d' \<Rightarrow> exec_all env q sqls d')"

definition Blueprint_Build ::
  "'db Env \<Rightarrow> Blueprint \<Rightarrow> Query \<Rightarrow> Grammar \<Rightarrow> 'db World \<Rightarrow> error option \<times> 'db World" where
  "Blueprint_Build env b q gr w =
     (case exec_all env q (ToSql env b gr) (store w) of
        (res, d) \<Rightarrow> (res, w\<lparr>store := d\<rparr>))"

text \<open>Modelled from the spec: \<open>Orm.Transaction(func(tx) error)\<close>, which is not part of the
  source file, opens a new transaction, runs the function on the transactional handle,
  commits when it returns nil and rolls back when it returns an error, which it hands
  on. A rollback restores the database contents of before the transaction.\<close>

definition Orm_Transaction ::
  "Orm \<Rightarrow> (Query \<Rightarrow> 'db World \<Rightarrow> error option \<times> 'db World) \<Rightarrow> 'db World
     \<Rightarrow> error option \<times> 'db World" where
  "Orm_Transaction om f w =
     (case f (Query (Orm_Name om) True) (w\<lparr>txlog := txlog w @ [TxBegin]\<rparr>) of
        (None, w') \<Rightarrow> (None, w'\<lparr>txlog := txlog w' @ [TxCommit]\<rparr>)
      | (Some err, w') \<Rightarrow>
          (Some err, w'\<lparr>store := store w, txlog := txlog w' @ [TxRollback]\<rparr>))"

subsection \<open>Mutating operations\<close>

definition build :: "'db Env \<Rightarrow> Schema \<Rightarrow> Blueprint \<Rightarrow> 'db World \<Rightarrow> error option \<times> 'db World" where
  "build env r blueprint w =
     (if InTransaction (Orm_Query (orm r))
      then Blueprint_Build env blueprint (Orm_Query (orm r)) (grammar r) w
      else Orm_Transaction (orm r) (\<lambda>tx. Blueprint_Build env blueprint tx (grammar r)) w)"

definition createBlueprint :: "Schema \<Rightarrow> string \<Rightarrow> Blueprint" where
  "createBlueprint r table = NewBlueprint r (prefix r) table"

text \<open>The callback of \<open>Create\<close> and \<open>Table\<close> mutates the blueprint it is given; here it
  returns the blueprint it leaves behind.\<close>

definition Create ::
  "'db Env \<Rightarrow> Schema \<Rightarrow> string \<Rightarrow> (Blueprint \<Rightarrow> Blueprint) \<Rightarrow> 'db World
     \<Rightarrow> error option \<times> 'db World" where
  "Create env r table callback w =
     (let blueprint = callback (Blueprint_Create (createBlueprint r table))
      in case build env r blueprint w of
           (Some err, w') \<Rightarrow> (Some (SchemaFailedToCreateTable table err), w')
         | (None, w') \<Rightarrow> (None, w'))"

definition Drop :: "'db Env \<Rightarrow> Schema \<Rightarrow> string \<Rightarrow> 'db World \<Rightarrow> error option \<times> 'db World" where
  "Drop env r table w =
     (let blueprint = Blueprint_Drop (createBlueprint r table)
      in case build env r blueprint w of
           (Some err, w') \<Rightarrow> (Some (SchemaFailedToDropTable table err), w')
         | (None, w') \<Rightarrow> (None, w'))"

definition DropColumns ::
  "'db Env \<Rightarrow> Schema \<Rightarrow> string \<Rightarrow> string list \<Rightarrow> 'db World \<Rightarrow> error option \<times> 'db World" where
  "DropColumns env r table columns w =
     (let blueprint = Blueprint_DropColumn columns (createBlueprint r table)
      in case build env r blueprint w of
           (Some err, w') \<Rightarrow> (Some (SchemaFailedToDropColumns table err), w')
         | (None, w') \<Rightarrow> (None, w'))"

definition DropIfExists ::
  "'db Env \<Rightarrow> Schema \<Rightarrow> string \<Rightarrow> 'db World \<Rightarrow> error option \<times> 'db World" where
  "DropIfExists env r table w =
     (let blueprint = Blueprint_DropIfExists (createBlueprint r table)
      in case build env r blueprint w of
           (Some err, w') \<Rightarrow> (Some (SchemaFailedToDropTable table err), w')
         | (None, w') \<Rightarrow> (None, w'))"

definition Rename ::
  "'db Env \<Rightarrow> Schema \<Rightarrow> string \<Rightarrow> string \<Rightarrow> 'db World \<Rightarrow> error option \<times> 'db World" where
  "Rename env r from to w =
     (let blueprint = Blueprint_Rename to (createBlueprint r from)
      in case build env r blueprint w of
           (Some err, w') \<Rightarrow> (Some (SchemaFailedToRenameTable from err), w')
         | (None, w') \<Rightarrow> (None, w'))"

definition Table ::
  "'db Env \<Rightarrow> Schema \<Rightarrow> string \<Rightarrow> (Blueprint \<Rightarrow> Blueprint) \<Rightarrow> 'db World
     \<Rightarrow> error option \<times> 'db World" where
  "Table env r table callback w =
     (let blueprint = callback (createBlueprint r table)
      in case build env r blueprint w of
           (Some err, w') \<Rightarrow> (Some (SchemaFailedToChangeTable table err), w')
         | (None, w') \<Rightarrow> (None, w'))"

definition Sql :: "'db Env \<Rightarrow> Schema \<Rightarrow> string \<Rightarrow> 'db World \<Rightarrow> error option \<times> 'db World" where
  "Sql env r sql w =
     (case Exec env (Orm_Query (orm r)) sql (store w) of
        Inl err \<Rightarrow> (Some err, w)
      | Inr d \<Rightarrow> (None, w\<lparr>store := d\<rparr>))"

subsection \<open>Introspection\<close>

text \<open>\<open>r.GetColumns\<close>, \<open>r.GetIndexes\<close>, \<open>r.GetTables\<close>, \<open>r.GetTypes\<close> and
  \<open>r.GetViews\<close> are the methods of the embedded \<open>DriverSchema\<close>. Each loop that
  collects names appends to a slice that starts as nil.\<close>

definition GetColumnListing ::
  "'db Env \<Rightarrow> Schema \<Rightarrow> string \<Rightarrow> 'db World \<Rightarrow> string list \<times> 'db World" where
  "GetColumnListing env r table w =
     (case GetColumns env (DriverSchema r) table (store w) of
        Inl err \<Rightarrow>
          ([], Errorf (log r) (Format ''failed to get %s columns: %v'')
                 [ArgString table, ArgError err] w)
      | Inr columns \<Rightarrow>
          (foldl (\<lambda>names column. names @ [Column_Name column]) [] columns, w))"

definition GetForeignKeys ::
  "'db Env \<Rightarrow> Schema \<Rightarrow> string \<Rightarrow> 'db World \<Rightarrow> error + ForeignKey list" where
  "GetForeignKeys env r table w =
     (let table' = prefix r @ table
      in case Raw_Scan env (Orm_Query (orm r))
                (CompileForeignKeys env (grammar r) (schema r) table') (store w) of
           Inl err \<Rightarrow> Inl err
         | Inr dbForeignKeys \<Rightarrow> Inr (ProcessForeignKeys env (processor r) dbForeignKeys))"

definition GetIndexListing ::
  "'db Env \<Rightarrow> Schema \<Rightarrow> string \<Rightarrow> 'db World \<Rightarrow> string list \<times> 'db World" where
  "GetIndexListing env r table w =
     (case GetIndexes env (DriverSchema r) table (store w) of
        Inl err \<Rightarrow>
          ([], Errorf (log r) (Format ''failed to get %s indexes: %v'')
                 [ArgString table, ArgError err] w)
      | Inr indexes \<Rightarrow>
          (foldl (\<lambda>names index. names @ [Index_Name index]) [] indexes, w))"

definition GetTableListing ::
  "'db Env \<Rightarrow> Schema \<Rightarrow> 'db World \<Rightarrow> string list \<times> 'db World" where
  "GetTableListing env r w =
     (case GetTables env (DriverSchema r) (store w) of
        Inl err \<Rightarrow>
          ([], Errorf (log r) (Format ''failed to get tables: %v'') [ArgError err] w)
      | Inr tables \<Rightarrow>
          (foldl (\<lambda>names table. names @ [Table_Name table]) [] tables, w))"

definition HasColumn ::
  "'db Env \<Rightarrow> Schema \<Rightarrow> string \<Rightarrow> string \<Rightarrow> 'db World \<Rightarrow> bool \<times> 'db World" where
  "HasColumn env r table column w =
     (case GetColumnListing env r table w of
        (columnListing, w') \<Rightarrow> (slices_Contains columnListing column, w'))"

primrec HasColumns_loop :: "string list \<Rightarrow> string list \<Rightarrow> bool" where
  "HasColumns_loop columnListing [] = True"
| "HasColumns_loop columnListing (column # columns) =
     (if \<not> slices_Contains columnListing column then False
      else HasColumns_loop columnListing columns)"

definition HasColumns ::
  "'db Env \<Rightarrow> Schema \<Rightarrow> string \<Rightarrow> string list \<Rightarrow> 'db World \<Rightarrow> bool \<times> 'db World" where
  "HasColumns env r table columns w =
     (case GetColumnListing env r table w of
        (columnListing, w') \<Rightarrow> (HasColumns_loop columnListing columns, w'))"

definition HasIndex ::
  "'db Env \<Rightarrow> Schema \<Rightarrow> string \<Rightarrow> string \<Rightarrow> 'db World \<Rightarrow> bool \<times> 'db World" where
  "HasIndex env r table index w =
     (case GetIndexListing env r table w of
        (indexListing, w') \<Rightarrow> (slices_Contains indexListing index, w'))"

primrec HasTable_loop :: "string \<Rightarrow> string \<Rightarrow> Table list \<Rightarrow> bool" where
  "HasTable_loop sch tableName [] = False"
| "HasTable_loop sch tableName (table # tables) =
     (if Table_Name table = tableName \<and> (sch = [] \<or> sch = Table_Schema table) then True
      else HasTable_loop sch tableName tables)"

text \<open>The two slices \<open>name[:lastDotIndex]\<close> and \<open>name[lastDotIndex+1:]\<close> are taken
  only when the name contains a dot, where the index is in range.\<close>

definition HasTable :: "'db Env \<Rightarrow> Schema \<Rightarrow> string \<Rightarrow> 'db World \<Rightarrow> bool \<times> 'db World" where
  "HasTable env r name w =
     (let (sch, name') =
            (if strings_Contains name ''.''
             then (let lastDotIndex = strings_LastIndex name ''.''
                   in (take (nat lastDotIndex) name, drop (nat (lastDotIndex + 1)) name))
             else ([], name));
          tableName = prefix r @ name'
      in case GetTables env (DriverSchema r) (store w) of
           Inl err \<Rightarrow>
             (False, Errorf (log r)
                       (ErrorText (SchemaFailedToGetTables (Orm_Name (orm r)) err)) [] w)
         | Inr tables \<Rightarrow> (HasTable_loop sch tableName tables, w))"

primrec HasType_loop :: "string \<Rightarrow> Type list \<Rightarrow> bool" where
  "HasType_loop name [] = False"
| "HasType_loop name (t # types) =
     (if Type_Name t = name then True else HasType_loop name types)"

definition HasType :: "'db Env \<Rightarrow> Schema \<Rightarrow> string \<Rightarrow> 'db World \<Rightarrow> bool \<times> 'db World" where
  "HasType env r name w =
     (case GetTypes env (DriverSchema r) (store w) of
        Inl err \<Rightarrow>
          (False, Errorf (log r)
                    (ErrorText (SchemaFailedToGetTables (Orm_Name (orm r)) err)) [] w)
      | Inr types \<Rightarrow> (HasType_loop name types, w))"

primrec HasView_loop :: "string \<Rightarrow> View list \<Rightarrow> bool" where
  "HasView_loop name [] = False"
| "HasView_loop name (view # views) =
     (if View_Name view = name then True else HasView_loop name views)"

definition HasView :: "'db Env \<Rightarrow> Schema \<Rightarrow> string \<Rightarrow> 'db World \<Rightarrow> bool \<times> 'db World" where
  "HasView env r name w =
     (case GetViews env (DriverSchema r) (store w) of
        Inl err \<Rightarrow>
          (False, Errorf (log r)
                    (ErrorText (SchemaFailedToGetTables (Orm_Name (orm r)) err)) [] w)
      | Inr views \<Rightarrow> (HasView_loop name views, w))"

section \<open>A concrete instance\<close>

text \<open>
  A configuration with one connection per supported driver and one with an unsupported
  driver, and a toy query engine whose database is the list of the statements executed
  so far: the statement \<open>fail\<close> is rejected, and once \<open>down\<close> has been executed every
  introspection query fails.
\<close>

definition example_config :: Config where
  "example_config = map_of
     [(''database.connections.pg.driver'', ''postgres''),
      (''database.connections.pg.prefix'', ''app_''),
      (''database.connections.my.driver'', ''mysql''),
      (''database.connections.my.database'', ''shop''),
      (''database.connections.ms.driver'', ''sqlserver''),
      (''database.connections.lite.driver'', ''sqlite''),
      (''database.connections.ora.driver'', ''oracle'')]"

definition example_orm :: "string \<Rightarrow> Orm" where
  "example_orm name = Orm name (Query name False)"

definition example_schema :: Schema where
  "example_schema =
     \<lparr> CommonSchema = NewCommonSchema (grammars_NewPostgres ''app_'') (example_orm ''pg''),
       DriverSchema = NewPostgresSchema (grammars_NewPostgres ''app_'') (example_orm ''pg'')
                        ''public'' ''app_'',
       config = example_config, grammar = grammars_NewPostgres ''app_'', log = ''stderr'',
       migrations = [], orm = example_orm ''pg'', prefix = ''app_'',
       processor = processors_NewPostgres, schema = ''public'' \<rparr>"

text \<open>The same schema held by a caller that has already opened a transaction.\<close>

definition example_schema_in_tx :: Schema where
  "example_schema_in_tx = example_schema\<lparr>orm := Orm ''pg'' (Query ''pg'' True)\<rparr>"

definition example_failure :: error where
  "example_failure = QueryError ''connection lost''"

definition example_answer :: "string list \<Rightarrow> 'a \<Rightarrow> error + 'a" where
  "example_answer d rows = (if ''down'' \<in> set d then Inl example_failure else Inr rows)"

definition example_tables :: "Table list" where
  "example_tables =
     [MkTable ''app_users'' ''public'', MkTable ''app_orders'' ''sales'',
      MkTable ''app_events'' ''audit.v2'']"

definition example_columns :: "Column list" where
  "example_columns = [Column ''id'' ''bigint'', Column ''name'' ''text'']"

definition example_indexes :: "Index list" where
  "example_indexes = [Index ''users_pkey'' [''id''], Index ''users_name_idx'' [''name'']]"

fun example_statement :: "Blueprint \<Rightarrow> Command \<Rightarrow> string" where
  "example_statement b CommandCreate = ''create '' @ Blueprint_prefix b @ Blueprint_table b"
| "example_statement b CommandDrop = ''drop '' @ Blueprint_prefix b @ Blueprint_table b"
| "example_statement b CommandDropIfExists =
     ''drop if exists '' @ Blueprint_prefix b @ Blueprint_table b"
| "example_statement b (CommandRename to) =
     ''rename '' @ Blueprint_prefix b @ Blueprint_table b @ '' to '' @ Blueprint_prefix b @ to"
| "example_statement b (CommandDropColumn columns) =
     ''drop columns of '' @ Blueprint_prefix b @ Blueprint_table b"
| "example_statement b (CommandAdd sql) = sql"

definition example_env :: "string list Env" where
  "example_env =
     \<lparr> CompileForeignKeys = (\<lambda>gr sch table. ''foreign keys of '' @ sch @ ''.'' @ table),
       ProcessForeignKeys = (\<lambda>pr rows. map (\<lambda>row. case row of
                                DBForeignKey name column \<Rightarrow> ForeignKey name [column]) rows),
       ToSql = (\<lambda>b gr. map (example_statement b) (Blueprint_commands b)),
       Exec = (\<lambda>q sql d. if sql = ''fail'' then Inl (QueryError ''syntax error'')
                          else Inr (d @ [sql])),
       Raw_Scan = (\<lambda>q sql d. example_answer d [DBForeignKey sql ''user_id'']),
       GetColumns = (\<lambda>ds table d. example_answer d example_columns),
       GetIndexes = (\<lambda>ds table d. example_answer d example_indexes),
       GetTables = (\<lambda>ds d. example_answer d example_tables),
       GetTypes = (\<lambda>ds d. example_answer d [Type ''mood'' ''public'']),
       GetViews = (\<lambda>ds d. example_answer d [View ''active_users'' ''public'']) \<rparr>"

definition example_world :: "string list \<Rightarrow> string list World" where
  "example_world d = \<lparr> store = d, txlog = [], errlog = [] \<rparr>"

section \<open>Properties\<close>

subsection \<open>Auxiliary facts\<close>

lemma names_loop: "foldl (\<lambda>names x. names @ [f x]) acc xs = acc @ map f xs"
  by (induction xs arbitrary: acc) simp_all

lemma example_answer_up: "example_answer [] rows = Inr rows"
  by (simp add: example_answer_def)

lemma example_answer_down: "example_answer [''down''] rows = Inl example_failure"
  by (simp add: example_answer_def)

lemma example_driver:
  "GetString example_config (connection_key ''ora'' ''driver'') None = ''oracle''"
  "GetString example_config (connection_key ''pg'' ''driver'') None = ''postgres''"
  "GetString example_config (connection_key ''my'' ''driver'') None = ''mysql''"
  "GetString example_config (connection_key ''ms'' ''driver'') None = ''sqlserver''"
  "GetString example_config (connection_key ''lite'' ''driver'') None = ''sqlite''"
  by (simp_all add: GetString_def connection_key_def example_config_def)

lemma example_prefix:
  "GetString example_config (connection_key ''ora'' ''prefix'') None = []"
  "GetString example_config (connection_key ''pg'' ''prefix'') None = ''app_''"
  "GetString example_config (connection_key ''my'' ''prefix'') None = []"
  "GetString example_config (connection_key ''ms'' ''prefix'') None = []"
  "GetString example_config (connection_key ''lite'' ''prefix'') None = []"
  by (simp_all add: GetString_def connection_key_def example_config_def)

lemma example_schema_setting:
  "GetString example_config (connection_key ''pg'' ''schema'') (Some ''public'') = ''public''"
  "GetString example_config (connection_key ''my'' ''database'') None = ''shop''"
  by (simp_all add: GetString_def connection_key_def example_config_def)

lemma Blueprint_Build_world:
  "Blueprint_Build env b q gr w = (res, w') \<Longrightarrow> txlog w' = txlog w \<and> errlog w' = errlog w"
  by (auto simp: Blueprint_Build_def split: prod.splits)

lemma example_in_tx:
  "InTransaction (Orm_Query (orm example_schema_in_tx))"
  "\<not> InTransaction (Orm_Query (orm example_schema))"
  by (simp_all add: example_schema_in_tx_def example_schema_def example_orm_def)

lemma example_ToSql:
  "ToSql example_env (addCommand (CommandAdd sql)
      (Blueprint_Create (createBlueprint example_schema ''users''))) gr
   = [''create app_users'', sql]"
  "ToSql example_env (addCommand (CommandAdd sql)
      (Blueprint_Create (createBlueprint example_schema_in_tx ''users''))) gr
   = [''create app_users'', sql]"
  by (simp_all add: example_env_def example_schema_def example_schema_in_tx_def
      createBlueprint_def NewBlueprint_def Blueprint_Create_def addCommand_def)

lemma example_Exec:
  "Exec example_env q sql d
     = (if sql = ''fail'' then Inl (QueryError ''syntax error'') else Inr (d @ [sql]))"
  by (simp add: example_env_def)

subsection \<open>Construction\<close>

text \<open>
  Claim C3. When the driver configured for the connection is none of postgres, mysql,
  sqlserver and sqlite, constructing a Schema panics with \<open>SchemaDriverNotSupported\<close>
  naming that driver, and no Schema is returned; for each of the four supported drivers
  construction succeeds with the Grammar, Processor and DriverSchema of that driver.
\<close>

theorem NewSchema_driver_dispatch:
  assumes "driver = GetString cfg (connection_key (Orm_Name om) ''driver'') None"
    and "pfx = GetString cfg (connection_key (Orm_Name om) ''prefix'') None"
  shows
  "(driver \<notin> {DriverPostgres, DriverMysql, DriverSqlserver, DriverSqlite} \<longrightarrow>
      NewSchema cfg lg om migs = Inl (SchemaDriverNotSupported driver))
   \<and> (driver = DriverPostgres \<longrightarrow>
      (\<exists>r. NewSchema cfg lg om migs = Inr r
         \<and> grammar r = grammars_NewPostgres pfx
         \<and> processor r = processors_NewPostgres
         \<and> DriverSchema r = NewPostgresSchema (grammars_NewPostgres pfx) om
              (GetString cfg (connection_key (Orm_Name om) ''schema'') (Some ''public'')) pfx))
   \<and> (driver = DriverMysql \<longrightarrow>
      (\<exists>r. NewSchema cfg lg om migs = Inr r
         \<and> grammar r = grammars_NewMysql pfx
         \<and> processor r = processors_NewMysql
         \<and> DriverSchema r = NewMysqlSchema (grammars_NewMysql pfx) om pfx))
   \<and> (driver = DriverSqlserver \<longrightarrow>
      (\<exists>r. NewSchema cfg lg om migs = Inr r
         \<and> grammar r = grammars_NewSqlserver pfx
         \<and> processor r = processors_NewSqlserver
         \<and> DriverSchema r = NewSqlserverSchema (grammars_NewSqlserver pfx) om pfx))
   \<and> (driver = DriverSqlite \<longrightarrow>
      (\<exists>r. NewSchema cfg lg om migs = Inr r
         \<and> grammar r = grammars_NewSqlite lg pfx
         \<and> processor r = processors_NewSqlite
         \<and> DriverSchema r = NewSqliteSchema (grammars_NewSqlite lg pfx) om pfx))"
proof -
  have distinct: "DriverMysql \<noteq> DriverPostgres" "DriverSqlserver \<noteq> DriverPostgres"
    "DriverSqlserver \<noteq> DriverMysql" "DriverSqlite \<noteq> DriverPostgres"
    "DriverSqlite \<noteq> DriverMysql" "DriverSqlite \<noteq> DriverSqlserver"
    by (simp_all add: DriverPostgres_def DriverMysql_def DriverSqlserver_def DriverSqlite_def)
  show ?thesis
    unfolding NewSchema_def Let_def assms [symmetric]
    using distinct by simp
qed

theorem NewSchema_driver_dispatch_witness:
  "NewSchema example_config ''stderr'' (example_orm ''ora'') []
     = Inl (SchemaDriverNotSupported ''oracle'')
   \<and> (\<exists>r. NewSchema example_config ''stderr'' (example_orm ''pg'') [] = Inr r
         \<and> grammar r = grammars_NewPostgres ''app_''
         \<and> processor r = processors_NewPostgres
         \<and> DriverSchema r = NewPostgresSchema (grammars_NewPostgres ''app_'')
              (example_orm ''pg'') ''public'' ''app_'')
   \<and> (\<exists>r. NewSchema example_config ''stderr'' (example_orm ''my'') [] = Inr r
         \<and> grammar r = grammars_NewMysql []
         \<and> processor r = processors_NewMysql
         \<and> DriverSchema r = NewMysqlSchema (grammars_NewMysql []) (example_orm ''my'') [])
   \<and> (\<exists>r. NewSchema example_config ''stderr'' (example_orm ''ms'') [] = Inr r
         \<and> grammar r = grammars_NewSqlserver []
         \<and> processor r = processors_NewSqlserver
         \<and> DriverSchema r = NewSqlserverSchema (grammars_NewSqlserver []) (example_orm ''ms'') [])
   \<and> (\<exists>r. NewSchema example_config ''stderr'' (example_orm ''lite'') [] = Inr r
         \<and> grammar r = grammars_NewSqlite ''stderr'' []
         \<and> processor r = processors_NewSqlite
         \<and> DriverSchema r = NewSqliteSchema (grammars_NewSqlite ''stderr'' [])
              (example_orm ''lite'') [])"
proof -
  note inst = NewSchema_driver_dispatch [OF refl refl, of example_config _ "''stderr''" "[]"]
  show ?thesis
    using inst [of "example_orm ''ora''"] inst [of "example_orm ''pg''"]
      inst [of "example_orm ''my''"] inst [of "example_orm ''ms''"]
      inst [of "example_orm ''lite''"]
    by (simp add: example_orm_def example_driver example_prefix example_schema_setting
        DriverPostgres_def DriverMysql_def DriverSqlserver_def DriverSqlite_def)
qed

subsection \<open>Listings\<close>

text \<open>
  Claim C7. Whenever the corresponding \<open>Get*\<close> call succeeds, \<open>GetColumnListing\<close>,
  \<open>GetIndexListing\<close> and \<open>GetTableListing\<close> return exactly the \<open>Name\<close> fields of the
  entities that call returned, in the same order, and change nothing: nothing is logged.
\<close>

theorem listings_project_names:
  "(GetColumns env (DriverSchema r) table (store w) = Inr columns \<longrightarrow>
      GetColumnListing env r table w = (map Column_Name columns, w))
   \<and> (GetIndexes env (DriverSchema r) table (store w) = Inr indexes \<longrightarrow>
      GetIndexListing env r table w = (map Index_Name indexes, w))
   \<and> (GetTables env (DriverSchema r) (store w) = Inr tables \<longrightarrow>
      GetTableListing env r w = (map Table_Name tables, w))"
  by (simp add: GetColumnListing_def GetIndexListing_def GetTableListing_def names_loop)

theorem listings_project_names_witness:
  "GetColumnListing example_env example_schema ''users'' (example_world [])
     = ([''id'', ''name''], example_world [])
   \<and> GetIndexListing example_env example_schema ''users'' (example_world [])
     = ([''users_pkey'', ''users_name_idx''], example_world [])
   \<and> GetTableListing example_env example_schema (example_world [])
     = ([''app_users'', ''app_orders'', ''app_events''], example_world [])"
  using listings_project_names [of example_env example_schema "''users''" "example_world []"
      example_columns example_indexes example_tables]
  by (simp add: example_env_def example_world_def example_columns_def example_indexes_def
      example_tables_def example_answer_up)

subsection \<open>Switching the connection\<close>

lemma Driver_distinct:
  "DriverMysql \<noteq> DriverPostgres" "DriverSqlserver \<noteq> DriverPostgres"
  "DriverSqlserver \<noteq> DriverMysql" "DriverSqlite \<noteq> DriverPostgres"
  "DriverSqlite \<noteq> DriverMysql" "DriverSqlite \<noteq> DriverSqlserver"
  by (simp_all add: DriverPostgres_def DriverMysql_def DriverSqlserver_def DriverSqlite_def)

lemma Orm_Name_Connection: "Orm_Name (Orm_Connection om name) = name"
  by (simp add: Orm_Connection_def)

lemma NewSchema_fields:
  assumes "NewSchema cfg lg om migs = Inr r"
  shows "orm r = om" "config r = cfg" "log r = lg" "migrations r = migs"
    "prefix r = GetString cfg (connection_key (Orm_Name om) ''prefix'') None"
  using assms by (auto simp: NewSchema_def Let_def split: if_splits)

lemma example_construction:
  "NewSchema example_config ''stderr'' (example_orm ''pg'') [] = Inr example_schema"
  by (simp add: NewSchema_def Let_def example_orm_def example_schema_def example_driver
      example_prefix example_schema_setting DriverPostgres_def)

lemma example_schema_config:
  "config example_schema = example_config" "log example_schema = ''stderr''"
  "grammar example_schema = grammars_NewPostgres ''app_''"
  by (simp_all add: example_schema_def)

text \<open>
  Claim C2, as the code has it. \<open>Connection(name)\<close> runs the construction again for the
  named connection: when the driver configured for that connection is supported it
  returns a new Schema bound to that connection, with the configuration, log and
  migrations of the receiver and with the prefix, grammar, processor and schema setting
  taken from the configuration of that connection; otherwise it panics as construction
  does. \<open>SetConnection(name)\<close> returns no Schema: it rebinds the \<open>orm\<close> handle of the
  receiver to the named connection.
\<close>

theorem Connection_re_resolves:
  assumes "driver = GetString (config r) (connection_key name ''driver'') None"
    and "pfx = GetString (config r) (connection_key name ''prefix'') None"
  shows
  "(Connection r name = Inr r' \<longrightarrow>
      GetConnection r' = name \<and> orm r' = Orm_Connection (orm r) name
      \<and> config r' = config r \<and> log r' = log r \<and> migrations r' = migrations r
      \<and> prefix r' = pfx)
   \<and> (driver = DriverPostgres \<longrightarrow>
      (\<exists>r'. Connection r name = Inr r'
         \<and> grammar r' = grammars_NewPostgres pfx \<and> processor r' = processors_NewPostgres
         \<and> schema r' = GetString (config r) (connection_key name ''schema'') (Some ''public'')))
   \<and> (driver = DriverMysql \<longrightarrow>
      (\<exists>r'. Connection r name = Inr r'
         \<and> grammar r' = grammars_NewMysql pfx \<and> processor r' = processors_NewMysql
         \<and> schema r' = GetString (config r) (connection_key name ''database'') None))
   \<and> (driver = DriverSqlserver \<longrightarrow>
      (\<exists>r'. Connection r name = Inr r'
         \<and> grammar r' = grammars_NewSqlserver pfx \<and> processor r' = processors_NewSqlserver
         \<and> schema r' = []))
   \<and> (driver = DriverSqlite \<longrightarrow>
      (\<exists>r'. Connection r name = Inr r'
         \<and> grammar r' = grammars_NewSqlite (log r) pfx \<and> processor r' = processors_NewSqlite
         \<and> schema r' = []))
   \<and> (driver \<notin> {DriverPostgres, DriverMysql, DriverSqlserver, DriverSqlite} \<longrightarrow>
      Connection r name = Inl (SchemaDriverNotSupported driver))
   \<and> GetConnection (SetConnection r name) = name
   \<and> orm (SetConnection r name) = Orm_Connection (orm r) name"
proof -
  have fields: "GetConnection r' = name \<and> orm r' = Orm_Connection (orm r) name
      \<and> config r' = config r \<and> log r' = log r \<and> migrations r' = migrations r
      \<and> prefix r' = pfx" if "Connection r name = Inr r'"
    using NewSchema_fields [OF that [unfolded Connection_def]]
    by (simp add: GetConnection_def Orm_Name_Connection assms(2))
  have dispatch:
    "driver = DriverPostgres \<longrightarrow>
      (\<exists>r'. Connection r name = Inr r'
         \<and> grammar r' = grammars_NewPostgres pfx \<and> processor r' = processors_NewPostgres
         \<and> schema r' = GetString (config r) (connection_key name ''schema'') (Some ''public''))"
    "driver = DriverMysql \<longrightarrow>
      (\<exists>r'. Connection r name = Inr r'
         \<and> grammar r' = grammars_NewMysql pfx \<and> processor r' = processors_NewMysql
         \<and> schema r' = GetString (config r) (connection_key name ''database'') None)"
    "driver = DriverSqlserver \<longrightarrow>
      (\<exists>r'. Connection r name = Inr r'
         \<and> grammar r' = grammars_NewSqlserver pfx \<and> processor r' = processors_NewSqlserver
         \<and> schema r' = [])"
    "driver = DriverSqlite \<longrightarrow>
      (\<exists>r'. Connection r name = Inr r'
         \<and> grammar r' = grammars_NewSqlite (log r) pfx \<and> processor r' = processors_NewSqlite
         \<and> schema r' = [])"
    "driver \<notin> {DriverPostgres, DriverMysql, DriverSqlserver, DriverSqlite} \<longrightarrow>
      Connection r name = Inl (SchemaDriverNotSupported driver)"
    unfolding Connection_def NewSchema_def Let_def Orm_Name_Connection assms [symmetric]
    using Driver_distinct by simp_all
  have rebind: "GetConnection (SetConnection r name) = name"
    "orm (SetConnection r name) = Orm_Connection (orm r) name"
    by (simp_all add: GetConnection_def SetConnection_def Orm_Name_Connection)
  show ?thesis
    by (rule conjI, rule impI, erule fields, intro conjI; fact dispatch rebind)
qed

theorem Connection_re_resolves_witness:
  "(\<exists>r'. Connection example_schema ''my'' = Inr r'
       \<and> GetConnection r' = ''my'' \<and> prefix r' = []
       \<and> grammar r' = grammars_NewMysql [] \<and> processor r' = processors_NewMysql
       \<and> schema r' = ''shop'')
   \<and> (\<exists>r'. Connection example_schema ''pg'' = Inr r'
       \<and> grammar r' = grammars_NewPostgres ''app_'' \<and> processor r' = processors_NewPostgres
       \<and> schema r' = ''public'')
   \<and> (\<exists>r'. Connection example_schema ''ms'' = Inr r'
       \<and> grammar r' = grammars_NewSqlserver [] \<and> processor r' = processors_NewSqlserver
       \<and> schema r' = [])
   \<and> (\<exists>r'. Connection example_schema ''lite'' = Inr r'
       \<and> grammar r' = grammars_NewSqlite ''stderr'' [] \<and> processor r' = processors_NewSqlite
       \<and> schema r' = [])
   \<and> Connection example_schema ''ora'' = Inl (SchemaDriverNotSupported ''oracle'')
   \<and> GetConnection (SetConnection example_schema ''my'') = ''my''"
proof -
  note inst = Connection_re_resolves [OF refl refl, where r = example_schema,
      unfolded example_schema_config]
  have my: "\<exists>r'. Connection example_schema ''my'' = Inr r'
       \<and> GetConnection r' = ''my'' \<and> prefix r' = []
       \<and> grammar r' = grammars_NewMysql [] \<and> processor r' = processors_NewMysql
       \<and> schema r' = ''shop''"
  proof -
    from inst [where name = "''my''"] obtain r' where r':
      "Connection example_schema ''my'' = Inr r'" "grammar r' = grammars_NewMysql []"
      "processor r' = processors_NewMysql" "schema r' = ''shop''"
      by (auto simp: example_driver example_prefix example_schema_setting DriverMysql_def)
    with inst [where name = "''my''" and r' = r'] show ?thesis
      by (simp add: example_prefix)
  qed
  show ?thesis
    using my inst [where name = "''pg''"] inst [where name = "''ms''"]
      inst [where name = "''lite''"] inst [where name = "''ora''"] inst [where name = "''my''"]
    by (simp add: example_driver example_prefix example_schema_setting
        DriverPostgres_def DriverMysql_def DriverSqlserver_def DriverSqlite_def)
qed

text \<open>
  The claim as it was stated, that \<open>SetConnection\<close> too gives a Schema with the driver,
  grammar and processor of the named connection, fails: on a Schema constructed for the
  postgres connection, \<open>SetConnection\<close> to the mysql connection keeps the postgres
  grammar, where \<open>Connection\<close> selects the mysql one.
\<close>

theorem SetConnection_keeps_dialect_counterexample:
  "NewSchema example_config ''stderr'' (example_orm ''pg'') [] = Inr example_schema
   \<and> map_sum id grammar (Connection example_schema ''my'') = Inr (grammars_NewMysql [])
   \<and> grammar (SetConnection example_schema ''my'') = grammars_NewPostgres ''app_''
   \<and> Inr (SetConnection example_schema ''my'') \<noteq> Connection example_schema ''my''"
proof -
  have new: "map_sum id grammar (Connection example_schema ''my'')
      = Inr (grammars_NewMysql [])"
    by (simp add: Connection_def NewSchema_def Let_def Orm_Name_Connection example_schema_config
        example_driver example_prefix DriverPostgres_def DriverMysql_def)
  have old: "grammar (SetConnection example_schema ''my'') = grammars_NewPostgres ''app_''"
    by (simp add: SetConnection_def example_schema_config)
  have differ: "Inr (SetConnection example_schema ''my'') \<noteq> Connection example_schema ''my''"
  proof
    assume "Inr (SetConnection example_schema ''my'') = Connection example_schema ''my''"
    then have "map_sum id grammar (Inr (SetConnection example_schema ''my'') :: error + Schema)
        = map_sum id grammar (Connection example_schema ''my'')"
      by (rule arg_cong)
    with new old show False by simp
  qed
  from example_construction new old differ show ?thesis
    by (intro conjI) assumption+
qed

text \<open>
  Claim C9. \<open>SetConnection(name)\<close> changes only the \<open>orm\<close> field, which it rebinds to the
  named connection; the grammar, processor, prefix, schema, config, log and migrations
  fields (and the two embedded schemas) keep the values they had.
\<close>

theorem SetConnection_frame:
  "grammar (SetConnection r name) = grammar r
   \<and> processor (SetConnection r name) = processor r
   \<and> prefix (SetConnection r name) = prefix r
   \<and> schema (SetConnection r name) = schema r
   \<and> config (SetConnection r name) = config r
   \<and> log (SetConnection r name) = log r
   \<and> migrations (SetConnection r name) = migrations r
   \<and> CommonSchema (SetConnection r name) = CommonSchema r
   \<and> DriverSchema (SetConnection r name) = DriverSchema r
   \<and> orm (SetConnection r name) = Orm_Connection (orm r) name"
  by (simp add: SetConnection_def)

subsection \<open>The transactional build\<close>

text \<open>
  Claim C1. The build step of every mutating operation (\<open>Create\<close>, \<open>Drop\<close>,
  \<open>DropIfExists\<close>, \<open>DropColumns\<close>, \<open>Rename\<close>, \<open>Table\<close>) builds the Blueprint directly
  against the current query handle when that handle is already inside a transaction, and
  opens no transaction; otherwise it builds the Blueprint against the handle of one newly
  opened transaction, which is committed when the build succeeds and rolled back when the
  build returns an error. What each operation does to the world is what its build step
  does.
\<close>

theorem build_transaction_protocol:
  "(InTransaction (Orm_Query (orm r)) \<longrightarrow>
      build env r b w = Blueprint_Build env b (Orm_Query (orm r)) (grammar r) w
      \<and> txlog (snd (build env r b w)) = txlog w)
   \<and> (\<not> InTransaction (Orm_Query (orm r)) \<longrightarrow>
      (\<exists>res w'.
         Blueprint_Build env b (Query (Orm_Name (orm r)) True) (grammar r)
           (w\<lparr>txlog := txlog w @ [TxBegin]\<rparr>) = (res, w')
         \<and> fst (build env r b w) = res
         \<and> (res = None \<longrightarrow>
              snd (build env r b w) = w'\<lparr>txlog := txlog w @ [TxBegin, TxCommit]\<rparr>)
         \<and> (res \<noteq> None \<longrightarrow>
              snd (build env r b w) = w\<lparr>txlog := txlog w @ [TxBegin, TxRollback]\<rparr>)))
   \<and> snd (Create env r table callback w)
        = snd (build env r (callback (Blueprint_Create (createBlueprint r table))) w)
   \<and> snd (Drop env r table w)
        = snd (build env r (Blueprint_Drop (createBlueprint r table)) w)
   \<and> snd (DropIfExists env r table w)
        = snd (build env r (Blueprint_DropIfExists (createBlueprint r table)) w)
   \<and> snd (DropColumns env r table columns w)
        = snd (build env r (Blueprint_DropColumn columns (createBlueprint r table)) w)
   \<and> snd (Rename env r table to w)
        = snd (build env r (Blueprint_Rename to (createBlueprint r table)) w)
   \<and> snd (Table env r table callback w)
        = snd (build env r (callback (createBlueprint r table)) w)"
proof -
  have direct:
    "build env r b w = Blueprint_Build env b (Orm_Query (orm r)) (grammar r) w"
    "txlog (snd (build env r b w)) = txlog w"
    if "InTransaction (Orm_Query (orm r))"
    using that by (simp_all add: build_def Blueprint_Build_def split: prod.split)
  have wrapped: "\<exists>res w'.
         Blueprint_Build env b (Query (Orm_Name (orm r)) True) (grammar r)
           (w\<lparr>txlog := txlog w @ [TxBegin]\<rparr>) = (res, w')
         \<and> fst (build env r b w) = res
         \<and> (res = None \<longrightarrow>
              snd (build env r b w) = w'\<lparr>txlog := txlog w @ [TxBegin, TxCommit]\<rparr>)
         \<and> (res \<noteq> None \<longrightarrow>
              snd (build env r b w) = w\<lparr>txlog := txlog w @ [TxBegin, TxRollback]\<rparr>)"
    if "\<not> InTransaction (Orm_Query (orm r))"
  proof -
    obtain res w' where run:
      "Blueprint_Build env b (Query (Orm_Name (orm r)) True) (grammar r)
         (w\<lparr>txlog := txlog w @ [TxBegin]\<rparr>) = (res, w')"
      by (cases "Blueprint_Build env b (Query (Orm_Name (orm r)) True) (grammar r)
         (w\<lparr>txlog := txlog w @ [TxBegin]\<rparr>)")
    from Blueprint_Build_world [OF run]
    have logs: "txlog w' = txlog w @ [TxBegin]" "errlog w' = errlog w"
      by simp_all
    have ok: "snd (build env r b w) = w'\<lparr>txlog := txlog w @ [TxBegin, TxCommit]\<rparr>"
      if "res = None"
      using that run logs \<open>\<not> InTransaction (Orm_Query (orm r))\<close>
      by (simp add: build_def Orm_Transaction_def)
    have bad: "snd (build env r b w) = w\<lparr>txlog := txlog w @ [TxBegin, TxRollback]\<rparr>"
      if "res \<noteq> None"
    proof -
      from that obtain err where "res = Some err" by auto
      then show ?thesis
        using run logs \<open>\<not> InTransaction (Orm_Query (orm r))\<close>
        by (cases w; cases w') (simp add: build_def Orm_Transaction_def)
    qed
    have res: "fst (build env r b w) = res"
      using run \<open>\<not> InTransaction (Orm_Query (orm r))\<close>
      by (cases res) (simp_all add: build_def Orm_Transaction_def)
    show ?thesis
      by (rule exI [of _ res], rule exI [of _ w']) (use run res ok bad in simp)
  qed
  have ops:
    "snd (Create env r table callback w)
        = snd (build env r (callback (Blueprint_Create (createBlueprint r table))) w)"
    "snd (Drop env r table w)
        = snd (build env r (Blueprint_Drop (createBlueprint r table)) w)"
    "snd (DropIfExists env r table w)
        = snd (build env r (Blueprint_DropIfExists (createBlueprint r table)) w)"
    "snd (DropColumns env r table columns w)
        = snd (build env r (Blueprint_DropColumn columns (createBlueprint r table)) w)"
    "snd (Rename env r table to w)
        = snd (build env r (Blueprint_Rename to (createBlueprint r table)) w)"
    "snd (Table env r table callback w)
        = snd (build env r (callback (createBlueprint r table)) w)"
    by (simp_all add: Create_def Drop_def DropIfExists_def DropColumns_def Rename_def
        Table_def Let_def split: prod.split option.split)
  show ?thesis
    by (intro conjI impI) (fact ops | erule direct | erule wrapped)+
qed

theorem build_transaction_protocol_witness:
  "InTransaction (Orm_Query (orm example_schema_in_tx))
   \<and> build example_env example_schema_in_tx
       (addCommand (CommandAdd ''fail'')
          (Blueprint_Create (createBlueprint example_schema_in_tx ''users'')))
       (example_world [])
     = (Some (QueryError ''syntax error''),
        \<lparr> store = [''create app_users''], txlog = [], errlog = [] \<rparr>)
   \<and> \<not> InTransaction (Orm_Query (orm example_schema))
   \<and> build example_env example_schema
       (addCommand (CommandAdd ''add id'')
          (Blueprint_Create (createBlueprint example_schema ''users'')))
       (example_world [])
     = (None, \<lparr> store = [''create app_users'', ''add id''], txlog = [TxBegin, TxCommit],
                errlog = [] \<rparr>)
   \<and> build example_env example_schema
       (addCommand (CommandAdd ''fail'')
          (Blueprint_Create (createBlueprint example_schema ''users'')))
       (example_world [])
     = (Some (QueryError ''syntax error''),
        \<lparr> store = [], txlog = [TxBegin, TxRollback], errlog = [] \<rparr>)"
proof -
  note inst = build_transaction_protocol [where env = example_env and w = "example_world []"
      and table = "''users''" and callback = "addCommand (CommandAdd ''fail'')"
      and columns = "[]" and to = "''people''"]
  let ?bad = "\<lambda>r. addCommand (CommandAdd ''fail'')
                   (Blueprint_Create (createBlueprint r ''users''))"
  let ?good = "addCommand (CommandAdd ''add id'')
                   (Blueprint_Create (createBlueprint example_schema ''users''))"
  have direct: "build example_env example_schema_in_tx (?bad example_schema_in_tx)
       (example_world [])
     = Blueprint_Build example_env (?bad example_schema_in_tx)
         (Orm_Query (orm example_schema_in_tx)) (grammar example_schema_in_tx)
         (example_world [])"
    using inst [where r = example_schema_in_tx and b = "?bad example_schema_in_tx"]
      example_in_tx(1) by blast
  have first: "build example_env example_schema_in_tx (?bad example_schema_in_tx)
       (example_world [])
     = (Some (QueryError ''syntax error''),
        \<lparr> store = [''create app_users''], txlog = [], errlog = [] \<rparr>)"
    unfolding direct
    by (simp add: Blueprint_Build_def example_ToSql example_Exec example_world_def)
  obtain res w' where commit:
    "Blueprint_Build example_env ?good (Query (Orm_Name (orm example_schema)) True)
       (grammar example_schema)
       (example_world []\<lparr>txlog := txlog (example_world []) @ [TxBegin]\<rparr>) = (res, w')"
    "fst (build example_env example_schema ?good (example_world [])) = res"
    "res = None \<longrightarrow> snd (build example_env example_schema ?good (example_world []))
       = w'\<lparr>txlog := txlog (example_world []) @ [TxBegin, TxCommit]\<rparr>"
    using inst [where r = example_schema and b = ?good, THEN conjunct2, THEN conjunct1,
        THEN mp, OF example_in_tx(2)]
    by (elim exE conjE) (rule that)
  from commit(1) have "res = None"
    and "w' = \<lparr> store = [''create app_users'', ''add id''], txlog = [TxBegin], errlog = [] \<rparr>"
    by (simp_all add: Blueprint_Build_def example_ToSql example_Exec example_world_def)
  with commit(2,3) have second: "build example_env example_schema ?good (example_world [])
     = (None, \<lparr> store = [''create app_users'', ''add id''], txlog = [TxBegin, TxCommit],
                errlog = [] \<rparr>)"
    by (simp add: prod_eq_iff example_world_def)
  obtain res w' where rollback:
    "Blueprint_Build example_env (?bad example_schema)
       (Query (Orm_Name (orm example_schema)) True) (grammar example_schema)
       (example_world []\<lparr>txlog := txlog (example_world []) @ [TxBegin]\<rparr>) = (res, w')"
    "fst (build example_env example_schema (?bad example_schema) (example_world [])) = res"
    "res \<noteq> None \<longrightarrow>
       snd (build example_env example_schema (?bad example_schema) (example_world []))
       = example_world []\<lparr>txlog := txlog (example_world []) @ [TxBegin, TxRollback]\<rparr>"
    using inst [where r = example_schema and b = "?bad example_schema", THEN conjunct2,
        THEN conjunct1, THEN mp, OF example_in_tx(2)]
    by (elim exE conjE) (rule that)
  from rollback(1) have "res = Some (QueryError ''syntax error'')"
    by (simp add: Blueprint_Build_def example_ToSql example_Exec example_world_def)
  with rollback(2,3) have third:
    "build example_env example_schema (?bad example_schema) (example_world [])
     = (Some (QueryError ''syntax error''),
        \<lparr> store = [], txlog = [TxBegin, TxRollback], errlog = [] \<rparr>)"
    by (simp add: prod_eq_iff example_world_def)
  show ?thesis
    by (intro conjI) (fact example_in_tx first second third)+
qed

text \<open>
  Claim C5. Each mutating operation returns the error of its build step wrapped in the
  kind of the operation (\<open>FailedToCreateTable\<close> for \<open>Create\<close>, \<open>FailedToDropTable\<close> for
  \<open>Drop\<close> and \<open>DropIfExists\<close>, \<open>FailedToDropColumns\<close> for \<open>DropColumns\<close>,
  \<open>FailedToRenameTable\<close> for \<open>Rename\<close>, \<open>FailedToChangeTable\<close> for \<open>Table\<close>) together
  with the table name and the cause, and returns nil when the build succeeds.
\<close>

theorem mutating_operations_wrap_errors:
  "fst (Create env r table callback w)
     = map_option (SchemaFailedToCreateTable table)
         (fst (build env r (callback (Blueprint_Create (createBlueprint r table))) w))
   \<and> fst (Drop env r table w)
     = map_option (SchemaFailedToDropTable table)
         (fst (build env r (Blueprint_Drop (createBlueprint r table)) w))
   \<and> fst (DropIfExists env r table w)
     = map_option (SchemaFailedToDropTable table)
         (fst (build env r (Blueprint_DropIfExists (createBlueprint r table)) w))
   \<and> fst (DropColumns env r table columns w)
     = map_option (SchemaFailedToDropColumns table)
         (fst (build env r (Blueprint_DropColumn columns (createBlueprint r table)) w))
   \<and> fst (Rename env r table to w)
     = map_option (SchemaFailedToRenameTable table)
         (fst (build env r (Blueprint_Rename to (createBlueprint r table)) w))
   \<and> fst (Table env r table callback w)
     = map_option (SchemaFailedToChangeTable table)
         (fst (build env r (callback (createBlueprint r table)) w))"
  by (simp add: Create_def Drop_def DropIfExists_def DropColumns_def Rename_def Table_def
      Let_def split: prod.split option.split)

theorem mutating_operations_wrap_errors_witness:
  "fst (Create example_env example_schema ''users'' (addCommand (CommandAdd ''fail''))
          (example_world []))
     = Some (SchemaFailedToCreateTable ''users'' (QueryError ''syntax error''))
   \<and> fst (Create example_env example_schema ''users'' (addCommand (CommandAdd ''add id''))
          (example_world []))
     = None"
  using
    mutating_operations_wrap_errors [where env = example_env and r = example_schema
      and table = "''users''" and callback = "addCommand (CommandAdd ''fail'')"
      and w = "example_world []" and columns = "[]"
      and to = "''people''"]
    mutating_operations_wrap_errors [where env = example_env and r = example_schema
      and table = "''users''" and callback = "addCommand (CommandAdd ''add id'')"
      and w = "example_world []" and columns = "[]"
      and to = "''people''"]
  by (simp add: build_def Orm_Transaction_def Blueprint_Build_def example_ToSql example_Exec
      example_world_def example_in_tx)

subsection \<open>Foreign keys\<close>

text \<open>
  Claim C8. \<open>GetForeignKeys(table)\<close> puts the configured prefix before the table name,
  has the Grammar compile the foreign-key query for the configured schema and that name,
  and runs it on the current handle: when the query succeeds the result is what the
  Processor makes of the rows, and when it fails the result is the error of the query
  itself, with no foreign keys.
\<close>

theorem GetForeignKeys_result:
  assumes "sql = CompileForeignKeys env (grammar r) (schema r) (prefix r @ table)"
  shows
  "(Raw_Scan env (Orm_Query (orm r)) sql (store w) = Inr rows \<longrightarrow>
      GetForeignKeys env r table w = Inr (ProcessForeignKeys env (processor r) rows))
   \<and> (Raw_Scan env (Orm_Query (orm r)) sql (store w) = Inl err \<longrightarrow>
      GetForeignKeys env r table w = Inl err)"
  by (simp add: GetForeignKeys_def assms)

theorem GetForeignKeys_result_witness:
  "GetForeignKeys example_env example_schema ''users'' (example_world [])
     = Inr [ForeignKey ''foreign keys of public.app_users'' [''user_id'']]
   \<and> GetForeignKeys example_env example_schema ''users'' (example_world [''down''])
     = Inl example_failure"
  using
    GetForeignKeys_result [OF refl, of example_env example_schema "''users''"
      "example_world []" "[DBForeignKey ''foreign keys of public.app_users'' ''user_id'']"]
    GetForeignKeys_result [OF refl, of example_env example_schema "''users''"
      "example_world [''down'']" _ example_failure]
  by (simp add: example_env_def example_schema_def example_world_def example_answer_up
      example_answer_down)

subsection \<open>Failing introspection\<close>

lemma HasColumns_loop_nil: "HasColumns_loop [] columns \<longleftrightarrow> columns = []"
  by (cases columns) simp_all

lemma example_down:
  "GetColumns example_env ds table [''down''] = Inl example_failure"
  "GetIndexes example_env ds table [''down''] = Inl example_failure"
  "GetTables example_env ds [''down''] = Inl example_failure"
  "GetTypes example_env ds [''down''] = Inl example_failure"
  "GetViews example_env ds [''down''] = Inl example_failure"
  by (simp_all add: example_env_def example_answer_down)

lemma example_schema_log:
  "log example_schema = ''stderr''" "Orm_Name (orm example_schema) = ''pg''"
  by (simp_all add: example_schema_def example_orm_def)

text \<open>
  Claim C4, as the code has it. When the underlying introspection call returns an error,
  \<open>GetColumnListing\<close>, \<open>GetIndexListing\<close> and \<open>GetTableListing\<close> log the error and
  return an empty listing, and \<open>HasColumn\<close>, \<open>HasIndex\<close>, \<open>HasTable\<close>, \<open>HasType\<close> and
  \<open>HasView\<close> log the error and return false; \<open>HasColumns\<close> logs the error and returns
  false when it is asked about at least one column, and true when the list of columns is
  empty. The error is never part of the result.
\<close>

theorem introspection_failures_are_logged:
  "(GetColumns env (DriverSchema r) table (store w) = Inl err \<longrightarrow>
      GetColumnListing env r table w
        = ([], Errorf (log r) (Format ''failed to get %s columns: %v'')
                 [ArgString table, ArgError err] w)
      \<and> HasColumn env r table column w
        = (False, Errorf (log r) (Format ''failed to get %s columns: %v'')
                    [ArgString table, ArgError err] w)
      \<and> HasColumns env r table columns w
        = (columns = [], Errorf (log r) (Format ''failed to get %s columns: %v'')
                           [ArgString table, ArgError err] w))
   \<and> (GetIndexes env (DriverSchema r) table (store w) = Inl err \<longrightarrow>
      GetIndexListing env r table w
        = ([], Errorf (log r) (Format ''failed to get %s indexes: %v'')
                 [ArgString table, ArgError err] w)
      \<and> HasIndex env r table index w
        = (False, Errorf (log r) (Format ''failed to get %s indexes: %v'')
                    [ArgString table, ArgError err] w))
   \<and> (GetTables env (DriverSchema r) (store w) = Inl err \<longrightarrow>
      GetTableListing env r w
        = ([], Errorf (log r) (Format ''failed to get tables: %v'') [ArgError err] w)
      \<and> HasTable env r name w
        = (False, Errorf (log r)
                    (ErrorText (SchemaFailedToGetTables (Orm_Name (orm r)) err)) [] w))
   \<and> (GetTypes env (DriverSchema r) (store w) = Inl err \<longrightarrow>
      HasType env r name w
        = (False, Errorf (log r)
                    (ErrorText (SchemaFailedToGetTables (Orm_Name (orm r)) err)) [] w))
   \<and> (GetViews env (DriverSchema r) (store w) = Inl err \<longrightarrow>
      HasView env r name w
        = (False, Errorf (log r)
                    (ErrorText (SchemaFailedToGetTables (Orm_Name (orm r)) err)) [] w))"
proof (intro conjI impI)
  assume "GetColumns env (DriverSchema r) table (store w) = Inl err"
  then show "GetColumnListing env r table w
        = ([], Errorf (log r) (Format ''failed to get %s columns: %v'')
                 [ArgString table, ArgError err] w)"
    by (simp add: GetColumnListing_def)
  then show "HasColumn env r table column w
        = (False, Errorf (log r) (Format ''failed to get %s columns: %v'')
                    [ArgString table, ArgError err] w)"
    and "HasColumns env r table columns w
        = (columns = [], Errorf (log r) (Format ''failed to get %s columns: %v'')
                           [ArgString table, ArgError err] w)"
    by (simp_all add: HasColumn_def HasColumns_def HasColumns_loop_nil)
next
  assume "GetIndexes env (DriverSchema r) table (store w) = Inl err"
  then show "GetIndexListing env r table w
        = ([], Errorf (log r) (Format ''failed to get %s indexes: %v'')
                 [ArgString table, ArgError err] w)"
    by (simp add: GetIndexListing_def)
  then show "HasIndex env r table index w
        = (False, Errorf (log r) (Format ''failed to get %s indexes: %v'')
                    [ArgString table, ArgError err] w)"
    by (simp add: HasIndex_def)
next
  assume "GetTables env (DriverSchema r) (store w) = Inl err"
  then show "GetTableListing env r w
        = ([], Errorf (log r) (Format ''failed to get tables: %v'') [ArgError err] w)"
    and "HasTable env r name w
        = (False, Errorf (log r)
                    (ErrorText (SchemaFailedToGetTables (Orm_Name (orm r)) err)) [] w)"
    by (simp_all add: GetTableListing_def HasTable_def Let_def split: prod.split)
next
  assume "GetTypes env (DriverSchema r) (store w) = Inl err"
  then show "HasType env r name w
        = (False, Errorf (log r)
                    (ErrorText (SchemaFailedToGetTables (Orm_Name (orm r)) err)) [] w)"
    by (simp add: HasType_def)
next
  assume "GetViews env (DriverSchema r) (store w) = Inl err"
  then show "HasView env r name w
        = (False, Errorf (log r)
                    (ErrorText (SchemaFailedToGetTables (Orm_Name (orm r)) err)) [] w)"
    by (simp add: HasView_def)
qed

theorem introspection_failures_are_logged_witness:
  "GetColumnListing example_env example_schema ''users'' (example_world [''down''])
     = ([], \<lparr> store = [''down''], txlog = [],
              errlog = [LogEntry ''stderr'' (Format ''failed to get %s columns: %v'')
                          [ArgString ''users'', ArgError example_failure]] \<rparr>)
   \<and> fst (HasColumn example_env example_schema ''users'' ''id'' (example_world [''down'']))
     = False
   \<and> fst (HasColumns example_env example_schema ''users'' [''id'']
           (example_world [''down''])) = False
   \<and> fst (HasIndex example_env example_schema ''users'' ''users_pkey''
           (example_world [''down''])) = False
   \<and> GetIndexListing example_env example_schema ''users'' (example_world [''down''])
     = ([], \<lparr> store = [''down''], txlog = [],
              errlog = [LogEntry ''stderr'' (Format ''failed to get %s indexes: %v'')
                          [ArgString ''users'', ArgError example_failure]] \<rparr>)
   \<and> GetTableListing example_env example_schema (example_world [''down''])
     = ([], \<lparr> store = [''down''], txlog = [],
              errlog = [LogEntry ''stderr'' (Format ''failed to get tables: %v'')
                          [ArgError example_failure]] \<rparr>)
   \<and> HasTable example_env example_schema ''users'' (example_world [''down''])
     = (False, \<lparr> store = [''down''], txlog = [],
                 errlog = [LogEntry ''stderr''
                   (ErrorText (SchemaFailedToGetTables ''pg'' example_failure)) []] \<rparr>)
   \<and> HasType example_env example_schema ''mood'' (example_world [''down''])
     = (False, \<lparr> store = [''down''], txlog = [],
                 errlog = [LogEntry ''stderr''
                   (ErrorText (SchemaFailedToGetTables ''pg'' example_failure)) []] \<rparr>)
   \<and> HasView example_env example_schema ''active_users'' (example_world [''down''])
     = (False, \<lparr> store = [''down''], txlog = [],
                 errlog = [LogEntry ''stderr''
                   (ErrorText (SchemaFailedToGetTables ''pg'' example_failure)) []] \<rparr>)"
  using introspection_failures_are_logged [where env = example_env and r = example_schema
      and table = "''users''" and w = "example_world [''down'']" and err = example_failure
      and column = "''id''" and columns = "[''id'']" and index = "''users_pkey''"
      and name = "''users''"]
    introspection_failures_are_logged [where env = example_env and r = example_schema
      and table = "''users''" and w = "example_world [''down'']" and err = example_failure
      and column = "''id''" and columns = "[''id'']" and index = "''users_pkey''"
      and name = "''mood''"]
    introspection_failures_are_logged [where env = example_env and r = example_schema
      and table = "''users''" and w = "example_world [''down'']" and err = example_failure
      and column = "''id''" and columns = "[''id'']" and index = "''users_pkey''"
      and name = "''active_users''"]
  by (simp add: example_down example_schema_log Errorf_def example_world_def)

text \<open>
  The claim as it was stated, that every \<open>Has*\<close> predicate returns false on an
  introspection error, fails for \<open>HasColumns\<close> with an empty list of columns.
\<close>

theorem HasColumns_empty_on_failure_counterexample:
  "GetColumns example_env (DriverSchema example_schema) ''users''
       (store (example_world [''down''])) = Inl example_failure
   \<and> fst (HasColumns example_env example_schema ''users'' [] (example_world [''down'']))
       = True"
  by (simp add: example_down example_world_def HasColumns_def GetColumnListing_def)

subsection \<open>Looking up a table\<close>

lemma strings_Contains_char: "strings_Contains s [c] \<longleftrightarrow> c \<in> set s"
  by (induction s) auto

lemma strings_LastIndex_absent: "c \<notin> set s \<Longrightarrow> strings_LastIndex s [c] = - 1"
  by (induction s) auto

lemma strings_LastIndex_last:
  "c \<notin> set t \<Longrightarrow> strings_LastIndex (s @ c # t) [c] = int (length s)"
  by (induction s) (simp_all add: strings_LastIndex_absent Let_def)

lemma strings_LastIndex_in_range:
  "strings_Contains s [c] \<Longrightarrow>
     0 \<le> strings_LastIndex s [c] \<and> strings_LastIndex s [c] < int (length s)"
proof -
  assume "strings_Contains s [c]"
  then have "c \<in> set s" by (simp add: strings_Contains_char)
  then obtain ys zs where "s = ys @ c # zs" "c \<notin> set zs"
    by (auto dest: split_list_last)
  then show ?thesis by (simp add: strings_LastIndex_last)
qed

lemma HasTable_loop_iff:
  "HasTable_loop sch tableName tables \<longleftrightarrow>
     (\<exists>tb\<in>set tables. Table_Name tb = tableName \<and> (sch = [] \<or> Table_Schema tb = sch))"
  by (induction tables) auto

lemma HasTable_qualified:
  assumes "GetTables env (DriverSchema r) (store w) = Inr tables"
    and "CHR ''.'' \<notin> set t"
  shows "HasTable env r (sch @ ''.'' @ t) w = (HasTable_loop sch (prefix r @ t) tables, w)"
proof -
  have "strings_Contains (sch @ ''.'' @ t) ''.''"
    by (simp add: strings_Contains_char)
  moreover have "strings_LastIndex (sch @ ''.'' @ t) ''.'' = int (length sch)"
    using assms(2) strings_LastIndex_last [of "CHR ''.''" t sch] by simp
  moreover have "nat (int (length sch) + 1) = Suc (length sch)"
    by simp
  ultimately show ?thesis
    using assms(1) by (simp add: HasTable_def)
qed

lemma HasTable_unqualified:
  assumes "GetTables env (DriverSchema r) (store w) = Inr tables"
    and "CHR ''.'' \<notin> set name"
  shows "HasTable env r name w = (HasTable_loop [] (prefix r @ name) tables, w)"
  using assms by (simp add: HasTable_def strings_Contains_char)

lemma example_schema_prefix: "prefix example_schema = ''app_''"
  by (simp add: example_schema_def)

lemma example_GetTables:
  "GetTables example_env (DriverSchema example_schema) (store (example_world []))
     = Inr example_tables"
  by (simp add: example_env_def example_world_def example_answer_up)

text \<open>
  Claim C6, as the code has it. When \<open>GetTables\<close> succeeds: for a name whose last dot
  has a non-empty part before it, \<open>HasTable\<close> returns true exactly when a reported
  table has the prefix followed by the part after the last dot as its \<open>Name\<close> and the
  part before the last dot as its \<open>Schema\<close>; for a name whose only dot is its first
  character, and for a name without a dot, it returns true exactly when a reported table
  has the prefixed name as its \<open>Name\<close>, whatever its \<open>Schema\<close>.
\<close>

theorem HasTable_matches:
  assumes "GetTables env (DriverSchema r) (store w) = Inr tables"
  shows
  "(CHR ''.'' \<notin> set t \<and> sch \<noteq> [] \<longrightarrow>
      HasTable env r (sch @ ''.'' @ t) w
        = ((\<exists>tb\<in>set tables. Table_Name tb = prefix r @ t \<and> Table_Schema tb = sch), w))
   \<and> (CHR ''.'' \<notin> set t \<longrightarrow>
      HasTable env r (''.'' @ t) w
        = ((\<exists>tb\<in>set tables. Table_Name tb = prefix r @ t), w))
   \<and> (CHR ''.'' \<notin> set name \<longrightarrow>
      HasTable env r name w
        = ((\<exists>tb\<in>set tables. Table_Name tb = prefix r @ name), w))"
  using HasTable_qualified [OF assms, of t sch] HasTable_qualified [OF assms, of t "[]"]
    HasTable_unqualified [OF assms, of name]
  by (simp add: HasTable_loop_iff)

theorem HasTable_matches_witness:
  "HasTable example_env example_schema ''sales.orders'' (example_world [])
     = (True, example_world [])
   \<and> HasTable example_env example_schema ''public.orders'' (example_world [])
     = (False, example_world [])
   \<and> HasTable example_env example_schema ''.orders'' (example_world [])
     = (True, example_world [])
   \<and> HasTable example_env example_schema ''orders'' (example_world [])
     = (True, example_world [])
   \<and> HasTable example_env example_schema ''app_orders'' (example_world [])
     = (False, example_world [])"
  using HasTable_matches [OF example_GetTables, of "''orders''" "''sales''" "''orders''"]
    HasTable_matches [OF example_GetTables, of "''orders''" "''public''" "''app_orders''"]
  by (simp add: example_tables_def example_schema_prefix)

text \<open>
  The claim as it was stated, for every name that contains a dot, fails where the part
  before the dot is empty: \<open>.users\<close> is found although no reported table has the empty
  schema.
\<close>

theorem HasTable_empty_qualifier_counterexample:
  "GetTables example_env (DriverSchema example_schema) (store (example_world []))
     = Inr example_tables
   \<and> fst (HasTable example_env example_schema ''.users'' (example_world [])) = True
   \<and> MkTable (prefix example_schema @ ''users'') [] \<notin> set example_tables"
proof -
  have "HasTable example_env example_schema ''.users'' (example_world [])
      = (True, example_world [])"
    using HasTable_qualified [OF example_GetTables, of "''users''" "[]"]
    by (simp add: example_tables_def example_schema_prefix)
  then have "fst (HasTable example_env example_schema ''.users'' (example_world [])) = True"
    by simp
  moreover have "MkTable (prefix example_schema @ ''users'') [] \<notin> set example_tables"
    by (simp add: example_tables_def example_schema_prefix)
  ultimately show ?thesis
    using example_GetTables by (intro conjI) assumption+
qed

text \<open>
  Claim C10. Every name with more than one dot is split by \<open>HasTable\<close> at its last dot:
  the part before it, which contains the other dots, is the schema qualifier that is
  compared with the \<open>Schema\<close> of the reported tables, and only the part after it is
  prefixed and compared with their \<open>Name\<close>.
\<close>

theorem HasTable_splits_at_last_dot:
  assumes "GetTables env (DriverSchema r) (store w) = Inr tables"
    and "1 < count_list name (CHR ''.'')"
  shows "\<exists>sch t. name = sch @ ''.'' @ t \<and> CHR ''.'' \<notin> set t \<and> CHR ''.'' \<in> set sch
     \<and> HasTable env r name w
         = ((\<exists>tb\<in>set tables. Table_Name tb = prefix r @ t \<and> Table_Schema tb = sch), w)"
proof -
  from assms(2) have "CHR ''.'' \<in> set name"
    by (metis count_list_0_iff not_less_zero)
  then obtain sch t where name: "name = sch @ CHR ''.'' # t" and t: "CHR ''.'' \<notin> set t"
    by (auto dest: split_list_last)
  from t have "count_list t (CHR ''.'') = 0"
    by (simp add: count_list_0_iff)
  with assms(2) name have "0 < count_list sch (CHR ''.'')"
    by simp
  then have sch: "CHR ''.'' \<in> set sch"
    by (metis count_list_0_iff less_numeral_extra(3))
  then have "sch \<noteq> []" by auto
  with HasTable_qualified [OF assms(1) t, of sch]
  have "HasTable env r (sch @ ''.'' @ t) w
         = ((\<exists>tb\<in>set tables. Table_Name tb = prefix r @ t \<and> Table_Schema tb = sch), w)"
    by (simp add: HasTable_loop_iff)
  with name t sch show ?thesis by auto
qed

theorem HasTable_splits_at_last_dot_witness:
  "1 < count_list ''audit.v2.events'' (CHR ''.'')
   \<and> (\<exists>sch t. ''audit.v2.events'' = sch @ ''.'' @ t \<and> CHR ''.'' \<notin> set t
         \<and> CHR ''.'' \<in> set sch
         \<and> HasTable example_env example_schema ''audit.v2.events'' (example_world [])
             = ((\<exists>tb\<in>set example_tables.
                   Table_Name tb = prefix example_schema @ t \<and> Table_Schema tb = sch),
                example_world []))
   \<and> HasTable example_env example_schema ''audit.v2.events'' (example_world [])
       = (True, example_world [])
   \<and> HasTable example_env example_schema ''v2.events'' (example_world [])
       = (False, example_world [])"
proof -
  have many: "1 < count_list ''audit.v2.events'' (CHR ''.'')"
    by simp
  have found: "HasTable example_env example_schema ''audit.v2.events'' (example_world [])
       = (True, example_world [])"
    using HasTable_qualified [OF example_GetTables, of "''events''" "''audit.v2''"]
    by (simp add: example_tables_def example_schema_prefix)
  have other: "HasTable example_env example_schema ''v2.events'' (example_world [])
       = (False, example_world [])"
    using HasTable_qualified [OF example_GetTables, of "''events''" "''v2''"]
    by (simp add: example_tables_def example_schema_prefix)
  show ?thesis
    using many found other HasTable_splits_at_last_dot [OF example_GetTables many]
    by (intro conjI) assumption+
qed

end
